theory Spec2Isabelle
  imports Complex_Main "HOL-Library.Multiset"
begin

section \<open>Shared data model\<close>

text \<open>
  Python floats and numpy float arrays are modelled by the real numbers and lists of
  reals: rounding and overflow are left out, and an equation between floats that holds up
  to rounding is an equation between reals. A division by zero and the square root of a
  negative number are modelled as the source has them: a division between Python floats
  raises \<open>ZeroDivisionError\<close>, a division or square root of numpy returns an infinity or
  a nan (section ``Floats in the kernels'').
\<close>

text \<open>The exceptions that the modelled code paths can raise.\<close>

datatype error =
    AssertionError
  | IndexError
  | NameError string
  | ValueError
  | TypeError
  | ZeroDivisionError
  | RuntimeError
  | MissingCalibrationError nat

text \<open>The fitted calibration curve of a sampler (\<open>sampler.calibration\<close>).\<close>

record calibration =
  alpha :: real
  v_p05 :: real

text \<open>
  A sampler, as far as \<open>network.py\<close> reads it: \<open>sampler.neuron_params.id\<close>,
  \<open>sampler.neuron_params.tau_refrac\<close> and \<open>sampler.calibration\<close>.
\<close>

record sampler =
  params_id :: nat
  tau_refrac :: real
  calib :: "calibration option"

text \<open>
  A numpy array: its shape and its elements in row-major order. A scalar (0-d array) has
  shape \<open>[]\<close> and one element.
\<close>

record ndarray =
  shape :: "nat list"
  data :: "real list"

text \<open>Element \<open>a[i, j]\<close> of a two-dimensional array.\<close>

definition at2 :: "ndarray \<Rightarrow> nat \<Rightarrow> nat \<Rightarrow> real" where
  "at2 a i j = data a ! (i * (shape a ! 1) + j)"

section \<open>\<open>utils.fill_diagonal\<close>\<close>

text \<open>Assignment of one value to a list of flat positions, \<open>array[indices] = value\<close>.\<close>

fun set_positions :: "nat list \<Rightarrow> real \<Rightarrow> real list \<Rightarrow> real list" where
  "set_positions [] v xs = xs"
| "set_positions (p # ps) v xs = set_positions ps v (xs[p := v])"

text \<open>
  The flat position of the element \<open>(i, i, ..., i)\<close> of an array with \<open>d\<close> axes of
  length \<open>n\<close> each.
\<close>

definition diag_pos :: "nat \<Rightarrow> nat \<Rightarrow> nat \<Rightarrow> nat" where
  "diag_pos n d i = i * sum_list (map (\<lambda>k. n ^ k) [0..<d])"

text \<open>
  \<^verbatim>\<open>
  def fill_diagonal(array, value=0):
      for s in array.shape:
          assert s == array.shape[0]
      index = np.arange(array.shape[0], dtype=int)
      indices = [index for s in array.shape]
      array[indices] = value
      return array
  \<close>
  The list of index arrays is read as one index per axis (the numpy of the source's
  Python 2), so the assignment writes the diagonal. On a 0-d array the loop body never
  runs and \<open>array.shape[0]\<close> raises.
\<close>

definition fill_diagonal :: "ndarray \<Rightarrow> real \<Rightarrow> error + ndarray" where
  "fill_diagonal array val =
     (if \<not> list_all (\<lambda>s. s = hd (shape array)) (shape array) then Inl AssertionError
      else if shape array = [] then Inl IndexError
      else
        let n = hd (shape array);
            indices = map (diag_pos n (length (shape array))) [0..<n]
        in Inr (array\<lparr>data := set_positions indices val (data array)\<rparr>))"

section \<open>\<open>BoltzmannMachineBase\<close>\<close>

text \<open>
  \<^verbatim>\<open>
  def _check_weight_matrix(self, weights):
      weights = np.array(weights)
      if len(weights.shape) == 0:
          scalar_weight = weights
          weights = np.empty((self.num_samplers, self.num_samplers))
          weights.fill(scalar_weight)
      expected_shape = (self.num_samplers, self.num_samplers)
      assert weights.shape == expected_shape, ...
      weights = utils.fill_diagonal(weights, 0.)
      return weights
  \<close>
  The argument of the model is the array that \<open>np.array(weights)\<close> builds, a fresh copy
  of the caller's value.
\<close>

definition check_weight_matrix :: "nat \<Rightarrow> ndarray \<Rightarrow> error + ndarray" where
  "check_weight_matrix num_samplers weights =
     (let weights =
            (if length (shape weights) = 0
             then \<lparr>shape = [num_samplers, num_samplers],
                   data = replicate (num_samplers * num_samplers) (hd (data weights))\<rparr>
             else weights);
          expected_shape = [num_samplers, num_samplers]
      in if shape weights \<noteq> expected_shape then Inl AssertionError
         else fill_diagonal weights 0)"

text \<open>
  The state of a Boltzmann machine that the weight properties use: the samplers and the
  stored values of the two dependent attributes \<open>weights_theo\<close> and \<open>weights_bio\<close>
  (\<open>None\<close>: no value stored, to be derived on the next read).
\<close>

record boltzmann_machine =
  num_samplers :: nat
  samplers :: "sampler list"
  stored_weights_theo :: "ndarray option"
  stored_weights_bio :: "ndarray option"

text \<open>
  \<^verbatim>\<open>
  def load_calibration(self, *ids):
      failed = []
      for i, sampler in enumerate(self.samplers):
          if i < len(ids):
              id = ids[i]
          else:
              id = None
          if not sampler.load_calibration(id=id):
              failed.append(sampler.neuron_params.id)
      return failed
  \<close>
  \<open>sampler.load_calibration\<close> belongs to \<open>samplers.py\<close>; it is the parameter \<open>ld\<close>,
  which returns the truth value of its result and the sampler as the call leaves it.
\<close>

fun load_calibration_loop ::
  "(sampler \<Rightarrow> nat option \<Rightarrow> bool \<times> sampler) \<Rightarrow> nat list \<Rightarrow> nat \<Rightarrow> sampler list \<Rightarrow> nat list
     \<Rightarrow> sampler list \<times> nat list" where
  "load_calibration_loop ld ids i [] failed = ([], failed)"
| "load_calibration_loop ld ids i (s # ss) failed =
     (let id = (if i < length ids then Some (ids ! i) else None);
          (ok, s') = ld s id;
          failed = (if \<not> ok then failed @ [params_id s'] else failed);
          (ss', failed) = load_calibration_loop ld ids (Suc i) ss failed
      in (s' # ss', failed))"

definition load_calibration ::
  "(sampler \<Rightarrow> nat option \<Rightarrow> bool \<times> sampler) \<Rightarrow> boltzmann_machine \<Rightarrow> nat list
     \<Rightarrow> boltzmann_machine \<times> nat list" where
  "load_calibration ld self ids =
     (let (ss, failed) = load_calibration_loop ld ids 0 (samplers self) []
      in (self\<lparr>samplers := ss\<rparr>, failed))"

text \<open>
  The calls the claim expects, one per sampler in order: sampler \<open>i\<close> is loaded with
  \<open>ids[i]\<close> when that exists and with \<open>None\<close> otherwise.
\<close>

definition load_attempts ::
  "(sampler \<Rightarrow> nat option \<Rightarrow> bool \<times> sampler) \<Rightarrow> nat list \<Rightarrow> sampler list \<Rightarrow> (bool \<times> sampler) list" where
  "load_attempts ld ids ss =
     map (\<lambda>i. ld (ss ! i) (if i < length ids then Some (ids ! i) else None)) [0..<length ss]"

text \<open>
  Modelled from the spec: the attribute mechanism of \<open>meta.py\<close> (\<open>meta.DependsOn\<close>,
  \<open>meta.HasDependencies\<close>), which is not among the sources. An assignment
  \<open>self.weights_theo = X\<close> calls the decorated function with \<open>X\<close>, stores what it returns
  and marks the attribute that depends on it (\<open>weights_bio\<close>) stale; when the function
  raises, nothing is stored. A read returns the stored value; when none is stored it calls
  the function without argument (its getter part), stores the result and returns it.
\<close>

definition set_weights_theo :: "boltzmann_machine \<Rightarrow> ndarray \<Rightarrow> boltzmann_machine \<times> (error + unit)" where
  "set_weights_theo self weights =
     (case check_weight_matrix (num_samplers self) weights of
        Inl e \<Rightarrow> (self, Inl e)
      | Inr w \<Rightarrow> (self\<lparr>stored_weights_theo := Some w, stored_weights_bio := None\<rparr>, Inr ()))"

definition set_weights_bio :: "boltzmann_machine \<Rightarrow> ndarray \<Rightarrow> boltzmann_machine \<times> (error + unit)" where
  "set_weights_bio self weights =
     (case check_weight_matrix (num_samplers self) weights of
        Inl e \<Rightarrow> (self, Inl e)
      | Inr w \<Rightarrow> (self\<lparr>stored_weights_bio := Some w, stored_weights_theo := None\<rparr>, Inr ()))"

text \<open>
  Modelled from the spec: \<open>LIFsampler.convert_weights_theo_to_bio\<close> and
  \<open>LIFsampler.convert_weights_bio_to_theo\<close> of \<open>samplers.py\<close>, which is not among the
  sources. The spec: the conversion applies the sampler's calibration-derived linear
  transform, with the slope \<open>alpha\<close> of the fitted sigmoid, to every entry it is given, and
  fails with \<open>MissingCalibrationError\<close>, which names the sampler, when no calibration is
  loaded.
\<close>

definition sampler_convert_weights_theo_to_bio :: "sampler \<Rightarrow> real list \<Rightarrow> error + real list" where
  "sampler_convert_weights_theo_to_bio s weights =
     (case calib s of
        None \<Rightarrow> Inl (MissingCalibrationError (params_id s))
      | Some c \<Rightarrow> Inr (map (\<lambda>w. w * alpha c) weights))"

definition sampler_convert_weights_bio_to_theo :: "sampler \<Rightarrow> real list \<Rightarrow> error + real list" where
  "sampler_convert_weights_bio_to_theo s weights =
     (case calib s of
        None \<Rightarrow> Inl (MissingCalibrationError (params_id s))
      | Some c \<Rightarrow> Inr (map (\<lambda>w. w / alpha c) weights))"

text \<open>The column \<open>a[:, j]\<close> of a matrix, and the assignment \<open>a[:, j] = col\<close>.\<close>

definition column :: "ndarray \<Rightarrow> nat \<Rightarrow> real list" where
  "column a j = map (\<lambda>i. at2 a i j) [0..<shape a ! 0]"

definition set_column :: "ndarray \<Rightarrow> nat \<Rightarrow> real list \<Rightarrow> ndarray" where
  "set_column a j col =
     a\<lparr>data := fold (\<lambda>i d. d[i * (shape a ! 1) + j := col ! i]) [0..<shape a ! 0] (data a)\<rparr>"

text \<open>
  \<^verbatim>\<open>
  def convert_weights_bio_to_theo(self, weights):
      conv_weights = np.zeros_like(weights)
      # the column index denotes the target neuron, hence we convert there
      for j, sampler in enumerate(self.samplers):
          conv_weights[:, j] = sampler.convert_weights_bio_to_theo(weights[:, j])
      return conv_weights
  \<close>
  and the same with \<open>convert_weights_theo_to_bio\<close>. \<open>convert_columns\<close> is the loop, for
  either conversion of the sampler. The callers pass a matrix; \<open>weights[:, j]\<close> raises when
  the array has fewer than two axes or no column \<open>j\<close>, and the model raises for every
  array that is not a matrix. The assignment takes a column of the matrix's height, or
  broadcasts a column of one element; a column of another length raises.
\<close>

fun convert_columns ::
  "(sampler \<Rightarrow> real list \<Rightarrow> error + real list) \<Rightarrow> ndarray \<Rightarrow> nat \<Rightarrow> sampler list \<Rightarrow> ndarray
     \<Rightarrow> error + ndarray" where
  "convert_columns conv weights j [] conv_weights = Inr conv_weights"
| "convert_columns conv weights j (sampler # rest) conv_weights =
     (if length (shape weights) \<noteq> 2 \<or> shape weights ! 1 \<le> j then Inl IndexError
      else case conv sampler (column weights j) of
             Inl e \<Rightarrow> Inl e
           | Inr col \<Rightarrow>
               if length col = shape weights ! 0
               then convert_columns conv weights (Suc j) rest (set_column conv_weights j col)
               else if length col = 1
               then convert_columns conv weights (Suc j) rest
                      (set_column conv_weights j (replicate (shape weights ! 0) (hd col)))
               else Inl ValueError)"

definition zeros_like :: "ndarray \<Rightarrow> ndarray" where
  "zeros_like a = a\<lparr>data := replicate (length (data a)) 0\<rparr>"

definition convert_weights_bio_to_theo :: "boltzmann_machine \<Rightarrow> ndarray \<Rightarrow> error + ndarray" where
  "convert_weights_bio_to_theo self weights =
     (let conv_weights = zeros_like weights
      in convert_columns sampler_convert_weights_bio_to_theo weights 0 (samplers self) conv_weights)"

definition convert_weights_theo_to_bio :: "boltzmann_machine \<Rightarrow> ndarray \<Rightarrow> error + ndarray" where
  "convert_weights_theo_to_bio self weights =
     (let conv_weights = zeros_like weights
      in convert_columns sampler_convert_weights_theo_to_bio weights 0 (samplers self) conv_weights)"

text \<open>
  \<^verbatim>\<open>
  @meta.DependsOn("weights_bio")
  def weights_theo(self, weights=None):
      if weights is not None:
          return self._check_weight_matrix(weights)
      else:
          return self.convert_weights_bio_to_theo(self.weights_bio)

  @meta.DependsOn("weights_theo")
  def weights_bio(self, weights=None):
      if weights is not None:
          return self._check_weight_matrix(weights)
      else:
          return self.convert_weights_theo_to_bio(self.weights_theo)
  \<close>
  The reads, with the attribute mechanism modelled from the spec as above: a stored value
  is returned as it is; otherwise the getter part converts the other attribute's stored
  value and the result is stored. When neither attribute holds a value each getter part
  reads the other attribute without end, which Python stops with a \<open>RuntimeError\<close>.
\<close>

definition get_weights_theo :: "boltzmann_machine \<Rightarrow> boltzmann_machine \<times> (error + ndarray)" where
  "get_weights_theo self =
     (case stored_weights_theo self of
        Some w \<Rightarrow> (self, Inr w)
      | None \<Rightarrow>
          (case stored_weights_bio self of
             None \<Rightarrow> (self, Inl RuntimeError)
           | Some weights_bio \<Rightarrow>
               (case convert_weights_bio_to_theo self weights_bio of
                  Inl e \<Rightarrow> (self, Inl e)
                | Inr w \<Rightarrow> (self\<lparr>stored_weights_theo := Some w\<rparr>, Inr w))))"

definition get_weights_bio :: "boltzmann_machine \<Rightarrow> boltzmann_machine \<times> (error + ndarray)" where
  "get_weights_bio self =
     (case stored_weights_bio self of
        Some w \<Rightarrow> (self, Inr w)
      | None \<Rightarrow>
          (case stored_weights_theo self of
             None \<Rightarrow> (self, Inl RuntimeError)
           | Some weights_theo \<Rightarrow>
               (case convert_weights_theo_to_bio self weights_theo of
                  Inl e \<Rightarrow> (self, Inl e)
                | Inr w \<Rightarrow> (self\<lparr>stored_weights_bio := Some w\<rparr>, Inr w))))"

section \<open>\<open>ThoroughBM.dist_marginal_sim\<close>\<close>

text \<open>The dictionary \<open>spike_data\<close> with its two keys, \<open>"spiketrains"\<close> and \<open>"duration"\<close>.\<close>

record spike_data =
  sd_spiketrains :: "real list list"
  sd_duration :: real

text \<open>
  \<^verbatim>\<open>
  marginals = np.zeros((len(self.selected_sampler_idx),))
  for i in self.selected_sampler_idx:
      sampler = self.samplers[i]
      spikes = self.spike_data["spiketrains"][i]
      marginals[i] = len(spikes) * sampler.neuron_params.tau_refrac
  marginals /= self.spike_data["duration"]
  return marginals
  \<close>
  \<open>selected_sampler_idx\<close> is the stored index array (the distinct indices that its setter
  keeps). Each of the three subscripts raises out of range.
\<close>

fun marginals_loop ::
  "sampler list \<Rightarrow> real list list \<Rightarrow> nat list \<Rightarrow> real list \<Rightarrow> error + real list" where
  "marginals_loop ss sts [] marginals = Inr marginals"
| "marginals_loop ss sts (i # idx) marginals =
     (if length ss \<le> i then Inl IndexError
      else if length sts \<le> i then Inl IndexError
      else if length marginals \<le> i then Inl IndexError
      else marginals_loop ss sts idx
             (marginals[i := real (length (sts ! i)) * tau_refrac (ss ! i)]))"

definition dist_marginal_sim ::
  "boltzmann_machine \<Rightarrow> spike_data \<Rightarrow> nat list \<Rightarrow> error + real list" where
  "dist_marginal_sim self sd selected_sampler_idx =
     (let marginals = replicate (length selected_sampler_idx) 0
      in case marginals_loop (samplers self) (sd_spiketrains sd) selected_sampler_idx marginals of
           Inl e \<Rightarrow> Inl e
         | Inr marginals \<Rightarrow> Inr (map (\<lambda>m. m / sd_duration sd) marginals))"

section \<open>\<open>gather_calibration_data.standalone_gather_calibration_data\<close>\<close>

text \<open>The dictionary \<open>calib_cfg\<close> with its five keys.\<close>

record calib_cfg =
  cfg_duration :: real
  cfg_num_samples :: nat
  cfg_mean :: real
  cfg_std :: real
  cfg_std_range :: real

text \<open>\<open>np.linspace(start, stop, num)\<close> with both ends included.\<close>

definition linspace :: "real \<Rightarrow> real \<Rightarrow> nat \<Rightarrow> real list" where
  "linspace start stop num =
     (if num = 1 then [start]
      else map (\<lambda>k. start + real k * ((stop - start) / real (num - 1))) [0..<num])"

text \<open>
  The names bound in the function's scope, and the evaluation of a name: a name that is
  bound nowhere raises \<open>NameError\<close>.
\<close>

type_synonym scope = "string \<rightharpoonup> real"

definition name :: "scope \<Rightarrow> string \<Rightarrow> error + real" where
  "name sc x = (case sc x of None \<Rightarrow> Inl (NameError x) | Some v \<Rightarrow> Inr v)"

text \<open>
  \<^verbatim>\<open>
  spread = calib_cfg["std_range"] * calib_cfg["std"]
  mean = calib_cfg["mean"]
  num = calib_cfg["num_samples"]
  samples_v_rest = np.linspace(mean-spread, mean+spead, num)
  ...
  sim.run(calib_cfg["duration"])
  spiketrains = samplers.get_data("spikes").segments[0].spiketrains
  num_spikes = np.array([len(s) for s in spiketrains], dtype=int)
  samples_p_on = num_spikes * neuron_params["tau_refrac"]\
          / calib_data["duration"]
  return samples_v_rest, samples_p_on
  \<close>
  The simulator between the two parts is the parameter \<open>run_sim\<close>: it takes the probe
  points and the duration and returns one spike count per probe neuron. The module binds
  neither \<open>spead\<close> nor \<open>calib_data\<close>.
\<close>

definition standalone_gather_calibration_data ::
  "(real list \<Rightarrow> real \<Rightarrow> nat list) \<Rightarrow> calib_cfg \<Rightarrow> real \<Rightarrow> error + (real list \<times> real list)" where
  "standalone_gather_calibration_data run_sim calib_cfg neuron_tau_refrac =
     (let sc = Map.empty;
          sc = sc(''spread'' \<mapsto> cfg_std_range calib_cfg * cfg_std calib_cfg);
          sc = sc(''mean'' \<mapsto> cfg_mean calib_cfg);
          num = cfg_num_samples calib_cfg
      in case name sc ''mean'' of Inl e \<Rightarrow> Inl e | Inr mean1 \<Rightarrow>
        (case name sc ''spread'' of Inl e \<Rightarrow> Inl e | Inr spread1 \<Rightarrow>
        (case name sc ''mean'' of Inl e \<Rightarrow> Inl e | Inr mean2 \<Rightarrow>
        (case name sc ''spead'' of Inl e \<Rightarrow> Inl e | Inr spead \<Rightarrow>
          (let samples_v_rest = linspace (mean1 - spread1) (mean2 + spead) num;
               num_spikes = run_sim samples_v_rest (cfg_duration calib_cfg)
           in case name sc ''calib_data'' of Inl e \<Rightarrow> Inl e | Inr calib_data_duration \<Rightarrow>
                Inr (samples_v_rest,
                     map (\<lambda>n. real n * neuron_tau_refrac / calib_data_duration) num_spikes))))))"

section \<open>\<open>utils.get_ordered_spike_idx\<close>\<close>

text \<open>
  \<^verbatim>\<open>
  num_spikes = sum((len(st) for st in spiketrains))
  spikes = np.zeros((num_spikes,), dtype=[("id", int), ("t", float)])
  current = 0
  for i, st in enumerate(spiketrains):
      spikes["id"][current:current+len(st)] = i
      spikes["t"][current:current+len(st)] = np.array(st)
      current += len(st)
  sort_idx = np.argsort(spikes["t"])
  sorted_spikes = spikes[sort_idx].copy()
  return sorted_spikes
  \<close>
  The loop fills the record array from the left, one train after the other;
  \<open>fill_spikes\<close> carries the part that is filled already.
\<close>

fun fill_spikes :: "nat \<Rightarrow> real list list \<Rightarrow> (nat \<times> real) list \<Rightarrow> (nat \<times> real) list" where
  "fill_spikes i [] spikes = spikes"
| "fill_spikes i (st # sts) spikes = fill_spikes (Suc i) sts (spikes @ map (\<lambda>t. (i, t)) st)"

text \<open>
  \<open>np.argsort\<close> is numpy's and is a parameter here. The source calls it with the default
  \<open>kind\<close>, numpy's quicksort, of which numpy documents that the indices sort the array and
  that the order of equal elements is not kept in general; \<open>np_argsort_quicksort\<close> below
  is that quicksort.
\<close>

definition get_ordered_spike_idx :: "(real list \<Rightarrow> nat list) \<Rightarrow> real list list \<Rightarrow> (nat \<times> real) list" where
  "get_ordered_spike_idx argsort spiketrains =
     (let spikes = fill_spikes 0 spiketrains [];
          sort_idx = argsort (map snd spikes);
          sorted_spikes = map (\<lambda>k. spikes ! k) sort_idx
      in sorted_spikes)"

text \<open>What \<open>np.argsort\<close> promises on the array \<open>ts\<close>: a permutation of the indices that sorts it.\<close>

definition argsort_ok :: "(real list \<Rightarrow> nat list) \<Rightarrow> real list \<Rightarrow> bool" where
  "argsort_ok argsort ts =
     (mset (argsort ts) = mset [0..<length ts] \<and> sorted (map (\<lambda>k. ts ! k) (argsort ts)))"

text \<open>The spikes of the input, as (id, time) records: the train index with each of its times.\<close>

definition input_spikes :: "real list list \<Rightarrow> (nat \<times> real) list" where
  "input_spikes spiketrains =
     concat (map (\<lambda>(i, st). map (\<lambda>t. (i, t)) st) (enumerate 0 spiketrains))"

section \<open>The quicksort behind \<open>np.argsort\<close>\<close>

text \<open>
  The source is Python 2 code, and in the numpy releases that run under Python 2 the default
  \<open>kind\<close> of \<open>np.argsort\<close> on an array \<open>v\<close> of floats is the C function \<open>aquicksort\<close> of
  numpy's \<open>npysort/quicksort.c.src\<close>, applied to the index array \<open>tosort = [0, ..., n-1]\<close>:
  \<^verbatim>\<open>
  npy_intp *pl = tosort;
  npy_intp *pr = tosort + num - 1;
  while (1) {
      while ((pr - pl) > SMALL_QUICKSORT) {        /* SMALL_QUICKSORT is 16 */
          pm = pl + ((pr - pl) >> 1);
          if (LT(v[*pm], v[*pl])) INTP_SWAP(*pm, *pl);
          if (LT(v[*pr], v[*pm])) INTP_SWAP(*pr, *pm);
          if (LT(v[*pm], v[*pl])) INTP_SWAP(*pm, *pl);
          vp = v[*pm];
          pi = pl;
          pj = pr - 1;
          INTP_SWAP(*pm, *pj);
          for (;;) {
              do ++pi; while (LT(v[*pi], vp));
              do --pj; while (LT(vp, v[*pj]));
              if (pi >= pj) break;
              INTP_SWAP(*pi, *pj);
          }
          pk = pr - 1;
          INTP_SWAP(*pi, *pk);
          /* push largest partition on stack, go on with the other */
          ...
      }
      /* insertion sort */
      for (pi = pl + 1; pi <= pr; ++pi) {
          vi = *pi;
          vp = v[vi];
          pj = pi;
          pk = pi - 1;
          while (pj > pl && LT(vp, v[*pk])) { *pj-- = *pk--; }
          *pj = vi;
      }
      if (sptr == stack) break;
      pr = *(--sptr);
      pl = *(--sptr);
  }
  \<close>
  \<open>LT\<close> is \<open><\<close> on numbers that are not nan. The pointers into \<open>tosort\<close> are positions in
  a list here, and \<open>pi\<close>, \<open>pj\<close>, \<open>pk\<close>, \<open>pl\<close>, \<open>pr\<close>, \<open>pm\<close> are written \<open>p_i\<close>, \<open>p_j\<close>,
  \<open>p_k\<close>, \<open>p_l\<close>, \<open>p_r\<close>, \<open>p_m\<close>. The two parts of a partitioned range do not overlap, so the order in which
  the stack yields them does not matter to the result, and the model sorts the left part
  first. Later releases also leave the partitioning for a heap sort when it nests deeper
  than twice the binary logarithm of the length; that is left out.
\<close>

definition swap :: "nat list \<Rightarrow> nat \<Rightarrow> nat \<Rightarrow> nat list" where
  "swap t i j = t[i := t ! j, j := t ! i]"

text \<open>
  The steps that \<open>while (LT(v[*p_i], vp))\<close> adds to the first \<open>++p_i\<close>, from the position
  \<open>p_i\<close> on, and those that \<open>while (LT(vp, v[*p_j]))\<close> adds to the first \<open>--p_j\<close>. In the C
  code the pivot at \<open>p_r - 1\<close> and the element at \<open>p_l\<close> stop the two scans inside the range;
  the ends of the list stop the recursion here.
\<close>

function up_steps :: "real list \<Rightarrow> real \<Rightarrow> nat list \<Rightarrow> nat \<Rightarrow> nat" where
  "up_steps v vp t p_i =
     (if p_i < length t \<and> v ! (t ! p_i) < vp then Suc (up_steps v vp t (Suc p_i)) else 0)"
  by pat_completeness auto
termination
  by (relation "measure (\<lambda>(v, vp, t, p_i). length t - p_i)") auto

declare up_steps.simps [simp del]

fun down_steps :: "real list \<Rightarrow> real \<Rightarrow> nat list \<Rightarrow> nat \<Rightarrow> nat" where
  "down_steps v vp t 0 = 0"
| "down_steps v vp t (Suc p_j) =
     (if vp < v ! (t ! Suc p_j) then Suc (down_steps v vp t p_j) else 0)"

text \<open>The loop \<open>for (;;)\<close> of the partition; it returns the index array and \<open>p_i\<close>.\<close>

function partition_loop :: "real list \<Rightarrow> real \<Rightarrow> nat list \<Rightarrow> nat \<Rightarrow> nat \<Rightarrow> nat list \<times> nat" where
  "partition_loop v vp t p_i p_j =
     (let p_i = Suc p_i + up_steps v vp t (Suc p_i);
          p_j = (p_j - 1) - down_steps v vp t (p_j - 1)
      in if p_j \<le> p_i then (t, p_i) else partition_loop v vp (swap t p_i p_j) p_i p_j)"
  by pat_completeness auto
termination
  by (relation "measure (\<lambda>(v, vp, t, p_i, p_j). p_j - p_i)") auto

declare partition_loop.simps [simp del]

definition quicksort_partition :: "real list \<Rightarrow> nat list \<Rightarrow> nat \<Rightarrow> nat \<Rightarrow> nat list \<times> nat" where
  "quicksort_partition v t p_l p_r =
     (let p_m = p_l + (p_r - p_l) div 2;
          t = (if v ! (t ! p_m) < v ! (t ! p_l) then swap t p_m p_l else t);
          t = (if v ! (t ! p_r) < v ! (t ! p_m) then swap t p_r p_m else t);
          t = (if v ! (t ! p_m) < v ! (t ! p_l) then swap t p_m p_l else t);
          vp = v ! (t ! p_m);
          p_i = p_l;
          p_j = p_r - 1;
          t = swap t p_m p_j;
          (t, p_i) = partition_loop v vp t p_i p_j;
          p_k = p_r - 1;
          t = swap t p_i p_k
      in (t, p_i))"

text \<open>The inner loop of the insertion sort; it returns the index array and \<open>p_j\<close>.\<close>

fun insert_shift :: "real list \<Rightarrow> real \<Rightarrow> nat \<Rightarrow> nat list \<Rightarrow> nat \<Rightarrow> nat list \<times> nat" where
  "insert_shift v vp p_l t 0 = (t, 0)"
| "insert_shift v vp p_l t (Suc p_k) =
     (if p_l < Suc p_k \<and> vp < v ! (t ! p_k) then insert_shift v vp p_l (t[Suc p_k := t ! p_k]) p_k
      else (t, Suc p_k))"

definition insertion_sort :: "real list \<Rightarrow> nat list \<Rightarrow> nat \<Rightarrow> nat \<Rightarrow> nat list" where
  "insertion_sort v t p_l p_r =
     fold (\<lambda>p_i t.
             let vi = t ! p_i;
                 vp = v ! vi;
                 (t, p_j) = insert_shift v vp p_l t p_i
             in t[p_j := vi])
          [Suc p_l..<Suc p_r] t"

text \<open>
  The sort of the range from \<open>p_l\<close> to \<open>p_r\<close>. The pivot's final position \<open>p_i\<close> lies inside
  the range; the test of it is there for the termination proof.
\<close>

function aquicksort :: "real list \<Rightarrow> nat list \<Rightarrow> nat \<Rightarrow> nat \<Rightarrow> nat list" where
  "aquicksort v t p_l p_r =
     (if 16 < p_r - p_l then
        (case quicksort_partition v t p_l p_r of
           (t, p_i) \<Rightarrow>
             if p_l < p_i \<and> p_i \<le> p_r
             then aquicksort v (aquicksort v t p_l (p_i - 1)) (Suc p_i) p_r
             else t)
      else insertion_sort v t p_l p_r)"
  by pat_completeness auto
termination
  by (relation "measure (\<lambda>(v, t, p_l, p_r). p_r - p_l)") auto

declare aquicksort.simps [simp del]

definition np_argsort_quicksort :: "real list \<Rightarrow> nat list" where
  "np_argsort_quicksort v = aquicksort v [0..<length v] 0 (length v - 1)"

section \<open>Floats in the kernels\<close>

text \<open>
  The scalar parameters of a kernel are Python floats, as a pyNN parameter dictionary holds
  them; the rate and weight arrays are numpy float arrays, and \<open>np.dot\<close> returns a numpy
  float. The two kinds divide differently. A division of one Python float by another raises
  \<open>ZeroDivisionError\<close> on a zero divisor. A division in which a numpy float or array takes
  part never raises: on a zero divisor it returns an infinity or a nan, as \<open>np.sqrt\<close> does
  on a negative number, and the computation goes on.
\<close>

definition py_div :: "real \<Rightarrow> real \<Rightarrow> error + real" where
  "py_div a b = (if b = 0 then Inl ZeroDivisionError else Inr (a / b))"

text \<open>
  A numpy float is \<open>Fin x\<close>, the finite float \<open>x\<close>, or \<open>InfNaN\<close>: an infinity or a nan, or
  a value computed from one, which the model follows no further.
\<close>

datatype npfloat = Fin real | InfNaN

instantiation npfloat :: "{plus, minus, times, inverse}"
begin

fun plus_npfloat :: "npfloat \<Rightarrow> npfloat \<Rightarrow> npfloat" where
  "plus_npfloat (Fin a) (Fin b) = Fin (a + b)"
| "plus_npfloat _ _ = InfNaN"

fun minus_npfloat :: "npfloat \<Rightarrow> npfloat \<Rightarrow> npfloat" where
  "minus_npfloat (Fin a) (Fin b) = Fin (a - b)"
| "minus_npfloat _ _ = InfNaN"

fun times_npfloat :: "npfloat \<Rightarrow> npfloat \<Rightarrow> npfloat" where
  "times_npfloat (Fin a) (Fin b) = Fin (a * b)"
| "times_npfloat _ _ = InfNaN"

fun divide_npfloat :: "npfloat \<Rightarrow> npfloat \<Rightarrow> npfloat" where
  "divide_npfloat (Fin a) (Fin b) = (if b = 0 then InfNaN else Fin (a / b))"
| "divide_npfloat _ _ = InfNaN"

fun inverse_npfloat :: "npfloat \<Rightarrow> npfloat" where
  "inverse_npfloat (Fin a) = (if a = 0 then InfNaN else Fin (inverse a))"
| "inverse_npfloat InfNaN = InfNaN"

instance ..

end

fun np_sqrt :: "npfloat \<Rightarrow> npfloat" where
  "np_sqrt (Fin a) = (if a < 0 then InfNaN else Fin (sqrt a))"
| "np_sqrt InfNaN = InfNaN"

text \<open>\<open>x**2\<close> on a numpy float.\<close>

definition np_square :: "npfloat \<Rightarrow> npfloat" where
  "np_square x = x * x"

section \<open>The membrane-potential distribution kernels of \<open>sbs/utils.py\<close>\<close>

text \<open>
  The kernels divide their rate arrays in place, so the arrays live in a store: a map from
  the address of an array object to its elements. A kernel takes the store and the
  addresses of its four arrays and returns the store as the call leaves it, with the
  result or the exception.
\<close>

type_synonym heap = "nat \<Rightarrow> real list"

text \<open>\<open>a /= c\<close> on the array at address \<open>a\<close>.\<close>

definition idiv :: "heap \<Rightarrow> nat \<Rightarrow> real \<Rightarrow> heap" where
  "idiv h a c = h(a := map (\<lambda>x. x / c) (h a))"

text \<open>\<open>np.dot\<close> of two one-dimensional arrays; arrays of different lengths raise.\<close>

definition dot :: "real list \<Rightarrow> real list \<Rightarrow> error + real" where
  "dot a b = (if length a \<noteq> length b then Inl ValueError else Inr (sum_list (map2 (*) a b)))"

text \<open>The same for arrays that may hold an infinity or a nan.\<close>

definition np_dot :: "npfloat list \<Rightarrow> npfloat list \<Rightarrow> error + npfloat" where
  "np_dot a b =
     (if length a \<noteq> length b then Inl ValueError else Inr (foldr (+) (map2 (*) a b) (Fin 0)))"



text \<open>Sequencing of steps that may raise.\<close>

definition bind :: "error + 'a \<Rightarrow> ('a \<Rightarrow> error + 'b) \<Rightarrow> error + 'b" where
  "bind m f = (case m of Inl e \<Rightarrow> Inl e | Inr x \<Rightarrow> f x)"

type_synonym kernel_result = "heap \<times> (error + npfloat \<times> npfloat \<times> npfloat \<times> npfloat)"

text \<open>
  \<^verbatim>\<open>
  def IF_cond_exp_distribution(rates_exc, rates_inh, weights_exc, weights_inh,
          e_rev_E, e_rev_I, tau_syn_E, tau_syn_I, g_l, v_rest, cm, **sink):
      rates_exc /= 1000.
      rates_inh /= 1000.
      weights_exc = np.abs(weights_exc)
      weights_inh = np.abs(weights_inh)
      g_exc = np.dot(weights_exc, rates_exc) * tau_syn_E
      g_inh = np.dot(weights_inh, rates_inh) * tau_syn_I
      g_tot = g_exc + g_inh + g_l
      tau_eff = cm / g_tot
      v_eff = (e_rev_E * g_exc + e_rev_I * g_inh + v_rest * g_l) / g_tot
      tau_g_exc = 1. / (1. / tau_syn_E - 1. / tau_eff)
      tau_g_inh = 1. / (1. / tau_syn_I - 1. / tau_eff)
      S_exc = weights_exc * (e_rev_E - v_eff) * tau_g_exc / tau_eff / g_tot
      S_inh = weights_inh * (e_rev_I - v_eff) * tau_g_inh / tau_eff / g_tot
      var_tau_e = (tau_syn_E/2. + tau_eff/2. -
                   2. * tau_eff * tau_syn_E / (tau_eff + tau_syn_E))
      var_tau_i = (tau_syn_I/2. + tau_eff/2. -
                   2. * tau_eff * tau_syn_I / (tau_eff + tau_syn_I))
      var = (np.dot(rates_exc, S_exc**2) * var_tau_e +
             np.dot(rates_inh, S_inh**2) * var_tau_i)
      return v_eff, np.sqrt(var), g_tot, tau_eff
  \<close>
  \<open>np.abs\<close> builds new arrays, which only the local names hold. \<open>g_exc\<close>, \<open>g_inh\<close> and
  \<open>g_tot\<close> are finite numpy floats, so \<open>tau_eff\<close>, \<open>v_eff\<close> and all that is computed from
  them are numpy floats; the only divisions between Python floats are \<open>1. / tau_syn_E\<close> and
  \<open>1. / tau_syn_I\<close>.
\<close>

definition IF_cond_exp_distribution ::
  "heap \<Rightarrow> nat \<Rightarrow> nat \<Rightarrow> nat \<Rightarrow> nat \<Rightarrow> real \<Rightarrow> real \<Rightarrow> real \<Rightarrow> real \<Rightarrow> real \<Rightarrow> real \<Rightarrow> real \<Rightarrow> kernel_result" where
  "IF_cond_exp_distribution h rates_exc rates_inh weights_exc weights_inh
       e_rev_E e_rev_I tau_syn_E tau_syn_I g_l v_rest cm =
     (let h = idiv h rates_exc 1000;
          h = idiv h rates_inh 1000;
          weights_exc = map abs (h weights_exc);
          weights_inh = map abs (h weights_inh)
      in (h,
        bind (dot weights_exc (h rates_exc)) (\<lambda>d_exc.
        bind (dot weights_inh (h rates_inh)) (\<lambda>d_inh.
          let g_exc = d_exc * tau_syn_E;
              g_inh = d_inh * tau_syn_I;
              g_tot = g_exc + g_inh + g_l;
              tau_eff = Fin cm / Fin g_tot;
              v_eff = Fin (e_rev_E * g_exc + e_rev_I * g_inh + v_rest * g_l) / Fin g_tot
          in bind (py_div 1 tau_syn_E) (\<lambda>inv_tau_syn_E.
             let tau_g_exc = Fin 1 / (Fin inv_tau_syn_E - Fin 1 / tau_eff)
             in bind (py_div 1 tau_syn_I) (\<lambda>inv_tau_syn_I.
             let tau_g_inh = Fin 1 / (Fin inv_tau_syn_I - Fin 1 / tau_eff);
                 S_exc = map (\<lambda>w. Fin w * (Fin e_rev_E - v_eff) * tau_g_exc / tau_eff / Fin g_tot)
                           weights_exc;
                 S_inh = map (\<lambda>w. Fin w * (Fin e_rev_I - v_eff) * tau_g_inh / tau_eff / Fin g_tot)
                           weights_inh;
                 var_tau_e = Fin (tau_syn_E / 2) + tau_eff / Fin 2
                             - Fin 2 * tau_eff * Fin tau_syn_E / (tau_eff + Fin tau_syn_E);
                 var_tau_i = Fin (tau_syn_I / 2) + tau_eff / Fin 2
                             - Fin 2 * tau_eff * Fin tau_syn_I / (tau_eff + Fin tau_syn_I)
             in bind (np_dot (map Fin (h rates_exc)) (map np_square S_exc)) (\<lambda>v_exc.
                bind (np_dot (map Fin (h rates_inh)) (map np_square S_inh)) (\<lambda>v_inh.
                  let var = v_exc * var_tau_e + v_inh * var_tau_i
                  in Inr (v_eff, np_sqrt var, Fin g_tot, tau_eff)))))))))"


text \<open>
  \<^verbatim>\<open>
  def IF_curr_exp_distribution(rates_exc, rates_inh, weights_exc, weights_inh,
          v_rest, tau_syn_E, tau_syn_I, g_l, cm, **sink):
      rates_exc /= 1000.
      rates_inh /= 1000.
      I_exc = np.dot(weights_exc, rates_exc) * tau_syn_E
      I_inh = np.dot(weights_inh, rates_inh) * tau_syn_I
      g_tot = g_l
      tau_eff = cm / g_tot
      v_eff = (I_exc + I_inh) / g_l + v_rest
      tau_g_exc = 1. / (1. / tau_syn_E - 1. / tau_eff)
      tau_g_inh = 1. / (1. / tau_syn_I - 1. / tau_eff)
      S_exc = weights_exc * tau_g_exc / tau_eff / g_tot
      S_inh = weights_inh * tau_g_inh / tau_eff / g_tot
      var = (np.dot(rates_exc, S_exc**2) * (tau_syn_E/2. + tau_eff/2. +
             -2. * tau_eff * tau_syn_E / (tau_eff + tau_syn_E)) +
             np.dot(rates_inh, S_inh**2) * (tau_syn_I/2. + tau_eff/2. +
             -2. * tau_eff * tau_syn_I / (tau_eff + tau_syn_I)))
      return v_eff, float(np.sqrt(var)), g_tot, tau_eff
  \<close>
  Here \<open>g_tot\<close> and \<open>tau_eff\<close> are Python floats, and so are \<open>tau_g_exc\<close>, \<open>tau_g_inh\<close> and
  the two factors of \<open>var\<close> in parentheses: each of their divisions raises on a zero divisor.
  The divisions of \<open>v_eff\<close>, \<open>S_exc\<close> and \<open>S_inh\<close> are numpy's and have the divisors \<open>g_l\<close>
  and \<open>tau_eff\<close>, which are not zero when these statements are reached.
\<close>

definition IF_curr_exp_distribution ::
  "heap \<Rightarrow> nat \<Rightarrow> nat \<Rightarrow> nat \<Rightarrow> nat \<Rightarrow> real \<Rightarrow> real \<Rightarrow> real \<Rightarrow> real \<Rightarrow> real \<Rightarrow> kernel_result" where
  "IF_curr_exp_distribution h rates_exc rates_inh weights_exc weights_inh
       v_rest tau_syn_E tau_syn_I g_l cm =
     (let h = idiv h rates_exc 1000;
          h = idiv h rates_inh 1000
      in (h,
        bind (dot (h weights_exc) (h rates_exc)) (\<lambda>d_exc.
        bind (dot (h weights_inh) (h rates_inh)) (\<lambda>d_inh.
          let I_exc = d_exc * tau_syn_E;
              I_inh = d_inh * tau_syn_I;
              g_tot = g_l
          in bind (py_div cm g_tot) (\<lambda>tau_eff.
             let v_eff = Fin (I_exc + I_inh) / Fin g_l + Fin v_rest
             in bind (py_div 1 tau_syn_E) (\<lambda>inv_tau_syn_E.
                bind (py_div 1 tau_eff) (\<lambda>inv_tau_eff.
                bind (py_div 1 (inv_tau_syn_E - inv_tau_eff)) (\<lambda>tau_g_exc.
                bind (py_div 1 tau_syn_I) (\<lambda>inv_tau_syn_I.
                bind (py_div 1 (inv_tau_syn_I - inv_tau_eff)) (\<lambda>tau_g_inh.
                let S_exc = map (\<lambda>w. w * tau_g_exc / tau_eff / g_tot) (h weights_exc);
                    S_inh = map (\<lambda>w. w * tau_g_inh / tau_eff / g_tot) (h weights_inh)
                in bind (dot (h rates_exc) (map (\<lambda>s. s ^ 2) S_exc)) (\<lambda>v_exc.
                   bind (py_div (- 2 * tau_eff * tau_syn_E) (tau_eff + tau_syn_E)) (\<lambda>q_exc.
                   bind (dot (h rates_inh) (map (\<lambda>s. s ^ 2) S_inh)) (\<lambda>v_inh.
                   bind (py_div (- 2 * tau_eff * tau_syn_I) (tau_eff + tau_syn_I)) (\<lambda>q_inh.
                     let var = v_exc * (tau_syn_E / 2 + tau_eff / 2 + q_exc)
                             + v_inh * (tau_syn_I / 2 + tau_eff / 2 + q_inh)
                     in Inr (v_eff, np_sqrt (Fin var), Fin g_tot, Fin tau_eff)))))))))))))))"


section \<open>The membrane-potential distribution kernels of the top-level \<open>utils.py\<close>\<close>




section \<open>The sums and the conditions of the claims about the kernels\<close>




section \<open>Load of calibrations\<close>

lemma load_calibration_loop_eq:
  "load_calibration_loop ld ids i ss failed =
     (map (\<lambda>k. snd (ld (ss ! k) (if i + k < length ids then Some (ids ! (i + k)) else None)))
        [0..<length ss],
      failed @ map (params_id \<circ> snd)
        (filter (\<lambda>r. \<not> fst r)
           (map (\<lambda>k. ld (ss ! k) (if i + k < length ids then Some (ids ! (i + k)) else None))
              [0..<length ss])))"
proof (induction ss arbitrary: i failed)
  case Nil
  show ?case by simp
next
  case (Cons s ss)
  have shift: "map f [0..<length (s # ss)] = f 0 # map (\<lambda>k. f (Suc k)) [0..<length ss]" for f :: "nat \<Rightarrow> 'b"
    by (simp add: upt_conv_Cons map_Suc_upt [symmetric] del: upt_Suc)
  show ?case
    by (simp only: shift load_calibration_loop.simps Let_def Cons.IH)
       (simp add: case_prod_beta cong: if_cong)
qed

text \<open>
  C9. \<open>load_calibration\<close> calls every sampler's load, whatever the earlier loads
  returned, and returns the parameter ids of exactly the samplers whose load returned
  false, in sampler order; the list is empty when every load succeeds.
\<close>

theorem load_calibration_collects_failures:
  "fst (load_calibration ld self ids) = self\<lparr>samplers := map snd (load_attempts ld ids (samplers self))\<rparr>
   \<and> snd (load_calibration ld self ids) =
       map (params_id \<circ> snd) (filter (\<lambda>r. \<not> fst r) (load_attempts ld ids (samplers self)))
   \<and> length (load_attempts ld ids (samplers self)) = length (samplers self)
   \<and> (list_all fst (load_attempts ld ids (samplers self)) \<longrightarrow> snd (load_calibration ld self ids) = [])"
proof -
  have "\<not> (\<exists>r \<in> set rs. \<not> fst r) \<Longrightarrow> filter (\<lambda>r. \<not> fst r) rs = []" for rs :: "(bool \<times> sampler) list"
    by (induction rs) auto
  then show ?thesis
    by (auto simp: load_calibration_def load_attempts_def load_calibration_loop_eq
        case_prod_beta list_all_iff cong: if_cong)
qed

theorem load_calibration_collects_failures_witness:
  "list_all fst (load_attempts (\<lambda>s id. (id \<noteq> None, s)) [7, 8]
       [\<lparr>params_id = 10, tau_refrac = 1, calib = None\<rparr>, \<lparr>params_id = 11, tau_refrac = 1, calib = None\<rparr>])
   \<and> snd (load_calibration (\<lambda>s id. (id \<noteq> None, s))
       \<lparr>num_samplers = 2,
         samplers = [\<lparr>params_id = 10, tau_refrac = 1, calib = None\<rparr>, \<lparr>params_id = 11, tau_refrac = 1, calib = None\<rparr>],
         stored_weights_theo = None, stored_weights_bio = None\<rparr> [7, 8]) = []
   \<and> snd (load_calibration (\<lambda>s id. (id \<noteq> None, s))
       \<lparr>num_samplers = 2,
         samplers = [\<lparr>params_id = 10, tau_refrac = 1, calib = None\<rparr>, \<lparr>params_id = 11, tau_refrac = 1, calib = None\<rparr>],
         stored_weights_theo = None, stored_weights_bio = None\<rparr> []) = [10, 11]"
proof -
  let ?ld = "\<lambda>(s::sampler) (id::nat option). (id \<noteq> None, s)"
  let ?ss = "[\<lparr>params_id = 10, tau_refrac = 1, calib = None\<rparr>, \<lparr>params_id = 11, tau_refrac = 1, calib = None\<rparr>]"
  let ?bm = "\<lparr>num_samplers = 2, samplers = ?ss, stored_weights_theo = None, stored_weights_bio = None\<rparr>"
  have two: "[0..<2] = [0, Suc 0]"
    by (simp add: upt_rec)
  have ok: "list_all fst (load_attempts ?ld [7, 8] ?ss)"
    by (simp add: load_attempts_def two)
  have a: "snd (load_calibration ?ld ?bm [7, 8]) = []"
  proof -
    have sel: "samplers ?bm = ?ss" by simp
    from load_calibration_collects_failures [of ?ld ?bm "[7, 8]"]
    have "list_all fst (load_attempts ?ld [7, 8] ?ss) \<longrightarrow> snd (load_calibration ?ld ?bm [7, 8]) = []"
      unfolding sel by (elim conjE)
    with ok show ?thesis by (rule rev_mp)
  qed
  have b: "snd (load_calibration ?ld ?bm []) = [10, 11]"
    using load_calibration_collects_failures [of ?ld ?bm "[]"] by (simp add: load_attempts_def two)
  from ok a b show ?thesis by simp
qed

section \<open>The weight setter\<close>

lemma set_positions_length [simp]: "length (set_positions ps v xs) = length xs"
  by (induction ps arbitrary: xs) auto

lemma set_positions_nth:
  "k < length xs \<Longrightarrow> set_positions ps v xs ! k = (if k \<in> set ps then v else xs ! k)"
  by (induction ps arbitrary: xs) (auto simp: nth_list_update)

lemma diag_pos_2: "diag_pos n (Suc (Suc 0)) i = i * n + i"
  by (simp add: diag_pos_def)

lemma flat_index_less: "i < n \<Longrightarrow> j < m \<Longrightarrow> i * m + j < n * (m::nat)"
proof -
  assume "i < n" "j < m"
  then have "i * m + j < Suc i * m" and "Suc i \<le> n" by simp_all
  moreover from \<open>Suc i \<le> n\<close> have "Suc i * m \<le> n * m" by (rule mult_le_mono1)
  ultimately show ?thesis by linarith
qed

lemma flat_index_inj:
  "j < m \<Longrightarrow> j' < m \<Longrightarrow> i * m + j = i' * m + j' \<Longrightarrow> i = i' \<and> j = (j'::nat)"
proof -
  assume a: "j < m" "j' < m" "i * m + j = i' * m + j'"
  have l: "(i * m + j) div m = i" "(i * m + j) mod m = j"
    using a(1) by simp_all
  have r: "(i' * m + j') div m = i'" "(i' * m + j') mod m = j'"
    using a(2) by simp_all
  from l r a(3) show ?thesis by metis
qed

lemma fill_diagonal_square:
  assumes "shape a = [n, n]" and "length (data a) = n * n"
  shows "\<exists>w. fill_diagonal a v = Inr w \<and> shape w = [n, n] \<and> length (data w) = n * n
           \<and> (\<forall>i<n. \<forall>j<n. at2 w i j = (if i = j then v else at2 a i j))"
proof -
  let ?w = "a\<lparr>data := set_positions (map (diag_pos n (Suc (Suc 0))) [0..<n]) v (data a)\<rparr>"
  have eq: "fill_diagonal a v = Inr ?w"
    using assms by (simp add: fill_diagonal_def)
  have "at2 ?w i j = (if i = j then v else at2 a i j)" if "i < n" "j < n" for i j
  proof -
    have lt: "i * n + j < length (data a)"
      using that assms flat_index_less [of i n j n] by simp
    have "(i * n + j \<in> set (map (diag_pos n (Suc (Suc 0))) [0..<n])) = (i = j)"
    proof
      assume "i * n + j \<in> set (map (diag_pos n (Suc (Suc 0))) [0..<n])"
      then obtain k where "k < n" "i * n + j = k * n + k"
        by (auto simp: diag_pos_2)
      with that flat_index_inj [of j n k i k] show "i = j" by simp
    next
      assume "i = j"
      with that show "i * n + j \<in> set (map (diag_pos n (Suc (Suc 0))) [0..<n])"
        by (auto simp: diag_pos_2 image_iff)
    qed
    with lt show ?thesis
      using assms by (simp add: at2_def set_positions_nth)
  qed
  with eq assms show ?thesis by auto
qed

lemma check_weight_matrix_wrong_shape:
  "shape x \<noteq> [] \<Longrightarrow> shape x \<noteq> [n, n] \<Longrightarrow> check_weight_matrix n x = Inl AssertionError"
  by (simp add: check_weight_matrix_def)

lemma check_weight_matrix_scalar:
  assumes "shape x = []"
  shows "\<exists>w. check_weight_matrix n x = Inr w \<and> shape w = [n, n] \<and> length (data w) = n * n
           \<and> (\<forall>i<n. \<forall>j<n. at2 w i j = (if i = j then 0 else hd (data x)))"
proof -
  let ?full = "\<lparr>shape = [n, n], data = replicate (n * n) (hd (data x))\<rparr>"
  have full: "at2 ?full i j = hd (data x)" if "i < n" "j < n" for i j
    using that flat_index_less [of i n j n] by (simp add: at2_def)
  have cw: "check_weight_matrix n x = fill_diagonal ?full 0"
    using assms by (simp add: check_weight_matrix_def)
  from fill_diagonal_square [of ?full n 0] obtain w where
    w: "fill_diagonal ?full 0 = Inr w" "shape w = [n, n]" "length (data w) = n * n"
       "\<forall>i<n. \<forall>j<n. at2 w i j = (if i = j then 0 else at2 ?full i j)"
    by auto
  with full have "\<forall>i<n. \<forall>j<n. at2 w i j = (if i = j then 0 else hd (data x))"
    by simp
  with w cw show ?thesis by auto
qed

text \<open>
  C8. An assignment of an array whose shape is neither \<open>()\<close> nor \<open>(N, N)\<close> fails on the
  shape assertion (the \<open>ShapeError\<close> of the specification; the source raises
  \<open>AssertionError\<close>) and leaves the machine as it was, for both representations. An
  assignment of a scalar \<open>s\<close> succeeds and stores an \<open>N x N\<close> matrix with \<open>s\<close> off the
  diagonal and zero on it.
\<close>

theorem weight_setter_shape_and_broadcast:
  "(shape x \<noteq> [] \<and> shape x \<noteq> [num_samplers self, num_samplers self] \<longrightarrow>
      set_weights_theo self x = (self, Inl AssertionError)
      \<and> set_weights_bio self x = (self, Inl AssertionError))
   \<and> (shape x = [] \<longrightarrow>
      (\<exists>w. set_weights_theo self x = (self\<lparr>stored_weights_theo := Some w, stored_weights_bio := None\<rparr>, Inr ())
         \<and> set_weights_bio self x = (self\<lparr>stored_weights_bio := Some w, stored_weights_theo := None\<rparr>, Inr ())
         \<and> shape w = [num_samplers self, num_samplers self]
         \<and> length (data w) = num_samplers self * num_samplers self
         \<and> (\<forall>i<num_samplers self. \<forall>j<num_samplers self.
               at2 w i j = (if i = j then 0 else hd (data x)))))"
proof (intro conjI impI)
  assume "shape x \<noteq> [] \<and> shape x \<noteq> [num_samplers self, num_samplers self]"
  then have "check_weight_matrix (num_samplers self) x = Inl AssertionError"
    by (simp add: check_weight_matrix_wrong_shape)
  then show "set_weights_theo self x = (self, Inl AssertionError)"
    and "set_weights_bio self x = (self, Inl AssertionError)"
    by (simp_all add: set_weights_theo_def set_weights_bio_def)
next
  assume "shape x = []"
  from check_weight_matrix_scalar [OF this, of "num_samplers self"] obtain w where
    w: "check_weight_matrix (num_samplers self) x = Inr w"
       "shape w = [num_samplers self, num_samplers self]"
       "length (data w) = num_samplers self * num_samplers self"
       "\<forall>i<num_samplers self. \<forall>j<num_samplers self. at2 w i j = (if i = j then 0 else hd (data x))"
    by auto
  then show "\<exists>w. set_weights_theo self x = (self\<lparr>stored_weights_theo := Some w, stored_weights_bio := None\<rparr>, Inr ())
         \<and> set_weights_bio self x = (self\<lparr>stored_weights_bio := Some w, stored_weights_theo := None\<rparr>, Inr ())
         \<and> shape w = [num_samplers self, num_samplers self]
         \<and> length (data w) = num_samplers self * num_samplers self
         \<and> (\<forall>i<num_samplers self. \<forall>j<num_samplers self.
               at2 w i j = (if i = j then 0 else hd (data x)))"
    by (intro exI [of _ w]) (simp add: set_weights_theo_def set_weights_bio_def)
qed

theorem weight_setter_shape_and_broadcast_witness:
  "shape \<lparr>shape = [3], data = [1, 2, 3]\<rparr> \<noteq> []
   \<and> shape \<lparr>shape = [3], data = [1, 2, 3]\<rparr> \<noteq> [2, 2]
   \<and> set_weights_theo \<lparr>num_samplers = 2, samplers = [], stored_weights_theo = None, stored_weights_bio = None\<rparr>
         \<lparr>shape = [3], data = [1, 2, 3]\<rparr>
       = (\<lparr>num_samplers = 2, samplers = [], stored_weights_theo = None, stored_weights_bio = None\<rparr>,
          Inl AssertionError)
   \<and> shape \<lparr>shape = [], data = [3]\<rparr> = []
   \<and> (\<exists>w. set_weights_theo \<lparr>num_samplers = 2, samplers = [], stored_weights_theo = None, stored_weights_bio = None\<rparr>
             \<lparr>shape = [], data = [3]\<rparr>
           = (\<lparr>num_samplers = 2, samplers = [], stored_weights_theo = Some w, stored_weights_bio = None\<rparr>, Inr ())
         \<and> at2 w 0 0 = 0 \<and> at2 w 0 1 = 3 \<and> at2 w 1 0 = 3 \<and> at2 w 1 1 = 0)"
proof -
  let ?bm = "\<lparr>num_samplers = 2, samplers = [], stored_weights_theo = None, stored_weights_bio = None\<rparr>"
  let ?v = "\<lparr>shape = [3], data = [1, 2, 3]\<rparr>"
  let ?s = "\<lparr>shape = [], data = [3]\<rparr>"
  have v: "shape ?v \<noteq> [] \<and> shape ?v \<noteq> [num_samplers ?bm, num_samplers ?bm]"
    by simp
  have a: "set_weights_theo ?bm ?v = (?bm, Inl AssertionError)"
    using weight_setter_shape_and_broadcast [of ?v ?bm] v by blast
  have s: "shape ?s = []"
    by simp
  from weight_setter_shape_and_broadcast [of ?s ?bm] s obtain w where
    w: "set_weights_theo ?bm ?s = (?bm\<lparr>stored_weights_theo := Some w, stored_weights_bio := None\<rparr>, Inr ())"
       "\<forall>i<num_samplers ?bm. \<forall>j<num_samplers ?bm. at2 w i j = (if i = j then 0 else hd (data ?s))"
    by blast
  from w(2) have "at2 w 0 0 = 0 \<and> at2 w 0 1 = 3 \<and> at2 w 1 0 = 3 \<and> at2 w 1 1 = 0"
    by simp
  with w(1) a show ?thesis by simp
qed

section \<open>The empirical marginal distribution\<close>

text \<open>
  When the selected samplers are the first \<open>k\<close> ones in order, the position of a sampler
  in the subset is its index, and the loop computes the estimator of every one of them.
\<close>

lemma marginals_loop_prefix:
  assumes "length m = k" "k \<le> length ss" "k \<le> length sts" "j \<le> k"
  shows "marginals_loop ss sts [j..<k] m
           = Inr (take j m @ map (\<lambda>i. real (length (sts ! i)) * tau_refrac (ss ! i)) [j..<k])"
  using assms
proof (induction "k - j" arbitrary: j m)
  case 0
  then show ?case by simp
next
  case (Suc d)
  then have j: "j < k" and d: "d = k - Suc j"
    by simp_all
  let ?v = "\<lambda>i. real (length (sts ! i)) * tau_refrac (ss ! i)"
  have "marginals_loop ss sts [j..<k] m = marginals_loop ss sts [Suc j..<k] (m[j := ?v j])"
    using j Suc.prems by (simp add: upt_conv_Cons)
  also have "\<dots> = Inr (take (Suc j) (m[j := ?v j]) @ map ?v [Suc j..<k])"
    using j Suc.prems by (intro Suc.hyps(1) d) simp_all
  also have "take (Suc j) (m[j := ?v j]) = take j m @ [?v j]"
    using j Suc.prems by (simp add: take_Suc_conv_app_nth)
  finally show ?case
    using j by (simp add: upt_conv_Cons)
qed

lemma dist_marginal_sim_prefix:
  assumes "k \<le> length (samplers self)" "k \<le> length (sd_spiketrains sd)"
  shows "dist_marginal_sim self sd [0..<k]
           = Inr (map (\<lambda>i. real (length (sd_spiketrains sd ! i)) * tau_refrac (samplers self ! i)
                          / sd_duration sd) [0..<k])"
  using marginals_loop_prefix [of "replicate k 0" k "samplers self" "sd_spiketrains sd" 0] assms
  by (simp add: dist_marginal_sim_def)

text \<open>
  C6. With two samplers and the selected subset \<open>{1}\<close> the vector of marginals has length
  one and the loop writes its entry number 1: the read of the distribution raises
  \<open>IndexError\<close> where the claim expects the one-entry vector \<open>[1 * 2 / 10]\<close>.
\<close>

theorem dist_marginal_sim_subset_raises:
  "dist_marginal_sim
     \<lparr>num_samplers = 2,
       samplers = [\<lparr>params_id = 0, tau_refrac = 2, calib = None\<rparr>, \<lparr>params_id = 1, tau_refrac = 2, calib = None\<rparr>],
       stored_weights_theo = None, stored_weights_bio = None\<rparr>
     \<lparr>sd_spiketrains = [[], [5]], sd_duration = 10\<rparr> [1] = Inl IndexError"
  by (simp add: dist_marginal_sim_def)

section \<open>The calibration run\<close>

lemma length_linspace [simp]: "length (linspace start stop num) = num"
  by (simp add: linspace_def)

lemma linspace_nth:
  "k < num \<Longrightarrow> linspace start stop num ! k
     = (if num = 1 then start else start + real k * ((stop - start) / real (num - 1)))"
  by (auto simp: linspace_def)

text \<open>
  C7. The calibration run never reaches \<open>np.linspace\<close>: the second bound of the probe
  interval names the unbound \<open>spead\<close>, and every call raises \<open>NameError\<close>.
\<close>

theorem standalone_gather_calibration_data_raises:
  "standalone_gather_calibration_data run_sim calib_cfg neuron_tau_refrac = Inl (NameError ''spead'')"
  by (simp add: standalone_gather_calibration_data_def name_def)

section \<open>The ordered spike index\<close>

lemma fill_spikes_eq:
  "fill_spikes i sts acc = acc @ concat (map (\<lambda>(k, st). map (\<lambda>t. (k, t)) st) (enumerate i sts))"
  by (induction sts arbitrary: i acc) auto

lemma fill_spikes_input: "fill_spikes 0 sts [] = input_spikes sts"
  by (simp add: fill_spikes_eq input_spikes_def)

lemma mset_map_nth_perm:
  assumes "mset idx = mset [0..<length xs]"
  shows "mset (map (\<lambda>k. xs ! k) idx) = mset xs"
proof -
  have "mset (map (\<lambda>k. xs ! k) idx) = image_mset (\<lambda>k. xs ! k) (mset idx)"
    by simp
  also have "\<dots> = image_mset (\<lambda>k. xs ! k) (mset [0..<length xs])"
    using assms by simp
  also have "\<dots> = mset (map (\<lambda>k. xs ! k) [0..<length xs])"
    by simp
  also have "\<dots> = mset xs"
    by (simp add: map_nth)
  finally show ?thesis .
qed

text \<open>
  The quicksort on eighteen equal keys: the partition step swaps the equal keys pairwise
  from both ends, and the two insertion sorts leave what it did.
\<close>

lemma np_argsort_quicksort_equal_keys:
  "np_argsort_quicksort (replicate 18 1) = [0, 15, 14, 13, 12, 11, 10, 9, 8, 7, 6, 5, 4, 3, 2, 1, 16, 17]"
  by code_simp

text \<open>
  C5, as the code has it. Whenever \<open>np.argsort\<close> returns a permutation of the indices that
  sorts the times, the result holds exactly the input spikes, each with the index of its
  train, in ascending order of time. The order of records with equal times is the one
  \<open>np.argsort\<close> returns for them.
\<close>

theorem ordered_spikes_sorted_permutation:
  assumes "argsort_ok argsort (map snd (input_spikes spiketrains))"
  shows "mset (get_ordered_spike_idx argsort spiketrains) = mset (input_spikes spiketrains)
         \<and> sorted (map snd (get_ordered_spike_idx argsort spiketrains))"
proof -
  let ?spikes = "input_spikes spiketrains"
  let ?idx = "argsort (map snd ?spikes)"
  from assms have p: "mset ?idx = mset [0..<length ?spikes]"
    and s: "sorted (map (\<lambda>k. map snd ?spikes ! k) ?idx)"
    by (simp_all add: argsort_ok_def)
  from p have "set ?idx = set [0..<length ?spikes]"
    by (rule mset_eq_setD)
  then have "map (\<lambda>k. map snd ?spikes ! k) ?idx = map snd (map (\<lambda>k. ?spikes ! k) ?idx)"
    by auto
  with s have "sorted (map snd (map (\<lambda>k. ?spikes ! k) ?idx))"
    by simp
  moreover from p have "mset (map (\<lambda>k. ?spikes ! k) ?idx) = mset ?spikes"
    by (rule mset_map_nth_perm)
  ultimately show ?thesis
    by (simp add: get_ordered_spike_idx_def fill_spikes_input Let_def)
qed

theorem ordered_spikes_sorted_permutation_witness:
  "argsort_ok np_argsort_quicksort (map snd (input_spikes [[1, 3], [2]]))
   \<and> mset (get_ordered_spike_idx np_argsort_quicksort [[1, 3], [2]]) = mset (input_spikes [[1, 3], [2]])
   \<and> sorted (map snd (get_ordered_spike_idx np_argsort_quicksort [[1, 3], [2]]))
   \<and> get_ordered_spike_idx np_argsort_quicksort [[1, 3], [2]] = [(0, 1), (1, 2), (0, 3)]"
proof -
  have ok: "argsort_ok np_argsort_quicksort (map snd (input_spikes [[1, 3], [2]]))"
    by code_simp
  have "get_ordered_spike_idx np_argsort_quicksort [[1, 3], [2]] = [(0, 1), (1, 2), (0, 3)]"
    by code_simp
  with ok ordered_spikes_sorted_permutation [OF ok] show ?thesis
    by (intro conjI) blast+
qed

text \<open>
  C5, the stability the claim adds. With two trains of nine spikes each, all at time 1,
  the quicksort of \<open>np.argsort\<close> returns a sorting permutation, and the result
  starts with the first spike of train 0, goes on with seven spikes of train 1, then the
  other eight of train 0, and ends with two of train 1: among the records of time 1 the
  order of appending, train 0 before train 1, is lost.
\<close>

theorem ordered_spikes_ties_not_stable:
  "argsort_ok np_argsort_quicksort (map snd (input_spikes [replicate 9 1, replicate 9 1]))
   \<and> map fst (get_ordered_spike_idx np_argsort_quicksort [replicate 9 1, replicate 9 1])
       = [0, 1, 1, 1, 1, 1, 1, 1, 0, 0, 0, 0, 0, 0, 0, 0, 1, 1]
   \<and> map fst (input_spikes [replicate 9 1, replicate 9 1])
       = [0, 0, 0, 0, 0, 0, 0, 0, 0, 1, 1, 1, 1, 1, 1, 1, 1, 1]
   \<and> filter (\<lambda>r. snd r = 1) (get_ordered_spike_idx np_argsort_quicksort [replicate 9 1, replicate 9 1])
       \<noteq> filter (\<lambda>r. snd r = 1) (input_spikes [replicate 9 1, replicate 9 1])"
proof -
  have "argsort_ok np_argsort_quicksort (map snd (input_spikes [replicate 9 1, replicate 9 1]))"
    by code_simp
  moreover have "map fst (get_ordered_spike_idx np_argsort_quicksort [replicate 9 1, replicate 9 1])
       = [0, 1, 1, 1, 1, 1, 1, 1, 0, 0, 0, 0, 0, 0, 0, 0, 1, 1]"
    by code_simp
  moreover have "map fst (input_spikes [replicate 9 1, replicate 9 1])
       = [0, 0, 0, 0, 0, 0, 0, 0, 0, 1, 1, 1, 1, 1, 1, 1, 1, 1]"
    by code_simp
  moreover have "filter (\<lambda>r. snd r = 1) (get_ordered_spike_idx np_argsort_quicksort [replicate 9 1, replicate 9 1])
       \<noteq> filter (\<lambda>r. snd r = 1) (input_spikes [replicate 9 1, replicate 9 1])"
    by code_simp
  ultimately show ?thesis
    by (intro conjI)
qed

section \<open>The kernels: store and result\<close>

lemma bind_Inr [simp]: "bind (Inr x) f = f x"
  by (simp add: bind_def)

lemma bind_Inl [simp]: "bind (Inl e) f = Inl e"
  by (simp add: bind_def)

lemma py_div_nonzero [simp]: "b \<noteq> 0 \<Longrightarrow> py_div a b = Inr (a / b)"
  by (simp add: py_div_def)

lemma py_div_zero [simp]: "py_div a 0 = Inl ZeroDivisionError"
  by (simp add: py_div_def)

lemma dot_Inr: "length a = length b \<Longrightarrow> dot a b = Inr (sum_list (map2 (*) a b))"
  by (simp add: dot_def)






lemma idiv_idiv_read:
  "re \<noteq> ri \<Longrightarrow> idiv (idiv h re c) ri c re = map (\<lambda>x. x / c) (h re)"
  "re \<noteq> ri \<Longrightarrow> idiv (idiv h re c) ri c ri = map (\<lambda>x. x / c) (h ri)"
  "a \<noteq> re \<Longrightarrow> a \<noteq> ri \<Longrightarrow> idiv (idiv h re c) ri c a = h a"
  by (simp_all add: idiv_def)



lemma IF_cond_exp_heap:
  "fst (IF_cond_exp_distribution h re ri we wi e_rev_E e_rev_I tau_syn_E tau_syn_I g_l v_rest cm)
     = idiv (idiv h re 1000) ri 1000"
  by (simp add: IF_cond_exp_distribution_def Let_def)







text \<open>
  When one array is passed for both rates, the two divisions act on it in turn: a single
  call divides it by a million.
\<close>

lemma kernel_rates_aliased:
  "fst (IF_cond_exp_distribution h r r we wi e_rev_E e_rev_I tau_syn_E tau_syn_I g_l v_rest cm) r
     = map (\<lambda>x. x / 1000 / 1000) (h r)"
  by (simp add: IF_cond_exp_heap idiv_def)








text \<open>A conductance-based kernel raises only on a synaptic time constant that is zero.\<close>

lemma IF_cond_exp_zero_tau_syn:
  assumes "length (h we) = length (h re)" "length (h wi) = length (h ri)"
    and "re \<noteq> ri" "we \<noteq> re" "we \<noteq> ri" "wi \<noteq> re" "wi \<noteq> ri"
  shows "snd (IF_cond_exp_distribution h re ri we wi e_rev_E e_rev_I 0 tau_syn_I g_l v_rest cm)
           = Inl ZeroDivisionError"
  using assms
  by (simp add: IF_cond_exp_distribution_def Let_def idiv_idiv_read dot_Inr)







text \<open>
  The current sums keep the sign of a weight: with one inhibitory source of rate 1000 Hz
  and weight -1 \<open>IF_curr_exp_distribution\<close> returns the mean potential -1, where the
  absolute value of the weight gives 1.
\<close>

lemma IF_curr_exp_signed_weight:
  "map_sum id fst (snd (IF_curr_exp_distribution ((\<lambda>a. [])(1 := [1000], 3 := [- 1])) 0 1 2 3 0 1 1 1 2))
     = Inr (Fin (- 1))
   \<and> map_sum id fst (snd (IF_curr_exp_distribution ((\<lambda>a. [])(1 := [1000], 3 := map abs [- 1])) 0 1 2 3 0 1 1 1 2))
     = Inr (Fin 1)"
  by (simp add: IF_curr_exp_distribution_def Let_def idiv_def dot_def)





section \<open>The two views of the weights\<close>

text \<open>
  C2. After a successful assignment to \<open>weights_theo\<close> no biological value is stored,
  whatever was stored before, and the next read of \<open>weights_bio\<close> returns
  \<open>convert_weights_theo_to_bio\<close> of the stored theoretical matrix and, when the conversion
  succeeds, stores it; the same holds with the two representations exchanged.
\<close>

theorem weights_views_recomputed_on_read:
  "(set_weights_theo self x = (self', Inr ()) \<longrightarrow>
      stored_weights_bio self' = None
      \<and> (\<exists>w. stored_weights_theo self' = Some w
             \<and> check_weight_matrix (num_samplers self) x = Inr w
             \<and> snd (get_weights_bio self') = convert_weights_theo_to_bio self' w
             \<and> (\<forall>b. snd (get_weights_bio self') = Inr b \<longrightarrow>
                    stored_weights_bio (fst (get_weights_bio self')) = Some b
                    \<and> stored_weights_theo (fst (get_weights_bio self')) = Some w)))
   \<and> (set_weights_bio self x = (self', Inr ()) \<longrightarrow>
      stored_weights_theo self' = None
      \<and> (\<exists>w. stored_weights_bio self' = Some w
             \<and> check_weight_matrix (num_samplers self) x = Inr w
             \<and> snd (get_weights_theo self') = convert_weights_bio_to_theo self' w
             \<and> (\<forall>t. snd (get_weights_theo self') = Inr t \<longrightarrow>
                    stored_weights_theo (fst (get_weights_theo self')) = Some t
                    \<and> stored_weights_bio (fst (get_weights_theo self')) = Some w)))"
  by (auto simp: set_weights_theo_def set_weights_bio_def get_weights_bio_def get_weights_theo_def
      split: sum.splits)

theorem weights_views_recomputed_on_read_witness:
  "set_weights_theo
      \<lparr>num_samplers = 2,
        samplers = [\<lparr>params_id = 0, tau_refrac = 1, calib = Some \<lparr>alpha = 2, v_p05 = 0\<rparr>\<rparr>,
                    \<lparr>params_id = 1, tau_refrac = 1, calib = Some \<lparr>alpha = 4, v_p05 = 0\<rparr>\<rparr>],
        stored_weights_theo = None,
        stored_weights_bio = Some \<lparr>shape = [2, 2], data = [0, 1, 1, 0]\<rparr>\<rparr>
      \<lparr>shape = [], data = [3]\<rparr>
     = (\<lparr>num_samplers = 2,
          samplers = [\<lparr>params_id = 0, tau_refrac = 1, calib = Some \<lparr>alpha = 2, v_p05 = 0\<rparr>\<rparr>,
                      \<lparr>params_id = 1, tau_refrac = 1, calib = Some \<lparr>alpha = 4, v_p05 = 0\<rparr>\<rparr>],
          stored_weights_theo = Some \<lparr>shape = [2, 2], data = [0, 3, 3, 0]\<rparr>,
          stored_weights_bio = None\<rparr>, Inr ())
   \<and> snd (get_weights_bio
        \<lparr>num_samplers = 2,
          samplers = [\<lparr>params_id = 0, tau_refrac = 1, calib = Some \<lparr>alpha = 2, v_p05 = 0\<rparr>\<rparr>,
                      \<lparr>params_id = 1, tau_refrac = 1, calib = Some \<lparr>alpha = 4, v_p05 = 0\<rparr>\<rparr>],
          stored_weights_theo = Some \<lparr>shape = [2, 2], data = [0, 3, 3, 0]\<rparr>,
          stored_weights_bio = None\<rparr>)
     = Inr \<lparr>shape = [2, 2], data = [0, 12, 6, 0]\<rparr>
   \<and> stored_weights_bio (fst (get_weights_bio
        \<lparr>num_samplers = 2,
          samplers = [\<lparr>params_id = 0, tau_refrac = 1, calib = Some \<lparr>alpha = 2, v_p05 = 0\<rparr>\<rparr>,
                      \<lparr>params_id = 1, tau_refrac = 1, calib = Some \<lparr>alpha = 4, v_p05 = 0\<rparr>\<rparr>],
          stored_weights_theo = Some \<lparr>shape = [2, 2], data = [0, 3, 3, 0]\<rparr>,
          stored_weights_bio = None\<rparr>))
     = Some \<lparr>shape = [2, 2], data = [0, 12, 6, 0]\<rparr>
   \<and> set_weights_bio
      \<lparr>num_samplers = 2,
        samplers = [\<lparr>params_id = 0, tau_refrac = 1, calib = Some \<lparr>alpha = 2, v_p05 = 0\<rparr>\<rparr>,
                    \<lparr>params_id = 1, tau_refrac = 1, calib = Some \<lparr>alpha = 4, v_p05 = 0\<rparr>\<rparr>],
        stored_weights_theo = None,
        stored_weights_bio = Some \<lparr>shape = [2, 2], data = [0, 1, 1, 0]\<rparr>\<rparr>
      \<lparr>shape = [2, 2], data = [7, 12, 6, 7]\<rparr>
     = (\<lparr>num_samplers = 2,
          samplers = [\<lparr>params_id = 0, tau_refrac = 1, calib = Some \<lparr>alpha = 2, v_p05 = 0\<rparr>\<rparr>,
                      \<lparr>params_id = 1, tau_refrac = 1, calib = Some \<lparr>alpha = 4, v_p05 = 0\<rparr>\<rparr>],
          stored_weights_theo = None,
          stored_weights_bio = Some \<lparr>shape = [2, 2], data = [0, 12, 6, 0]\<rparr>\<rparr>, Inr ())
   \<and> snd (get_weights_theo
        \<lparr>num_samplers = 2,
          samplers = [\<lparr>params_id = 0, tau_refrac = 1, calib = Some \<lparr>alpha = 2, v_p05 = 0\<rparr>\<rparr>,
                      \<lparr>params_id = 1, tau_refrac = 1, calib = Some \<lparr>alpha = 4, v_p05 = 0\<rparr>\<rparr>],
          stored_weights_theo = None,
          stored_weights_bio = Some \<lparr>shape = [2, 2], data = [0, 12, 6, 0]\<rparr>\<rparr>)
     = Inr \<lparr>shape = [2, 2], data = [0, 3, 3, 0]\<rparr>"
proof -
  let ?ss = "[\<lparr>params_id = 0, tau_refrac = 1, calib = Some \<lparr>alpha = 2, v_p05 = 0\<rparr>\<rparr>,
              \<lparr>params_id = 1, tau_refrac = 1, calib = Some \<lparr>alpha = 4, v_p05 = 0\<rparr>\<rparr>]"
  let ?T = "\<lparr>shape = [2, 2], data = [0, 3, 3, 0]\<rparr>"
  let ?B = "\<lparr>shape = [2, 2], data = [0, 12, 6, 0]\<rparr>"
  let ?bm = "\<lparr>num_samplers = 2, samplers = ?ss, stored_weights_theo = None,
              stored_weights_bio = Some \<lparr>shape = [2, 2], data = [0, 1, 1, 0]\<rparr>\<rparr>"
  let ?bm1 = "\<lparr>num_samplers = 2, samplers = ?ss, stored_weights_theo = Some ?T, stored_weights_bio = None\<rparr>"
  let ?bm2 = "\<lparr>num_samplers = 2, samplers = ?ss, stored_weights_theo = None, stored_weights_bio = Some ?B\<rparr>"
  have s1: "set_weights_theo ?bm \<lparr>shape = [], data = [3]\<rparr> = (?bm1, Inr ())"
    by code_simp
  have s2: "set_weights_bio ?bm \<lparr>shape = [2, 2], data = [7, 12, 6, 7]\<rparr> = (?bm2, Inr ())"
    by code_simp
  have c1: "convert_weights_theo_to_bio ?bm1 ?T = Inr ?B"
    by code_simp
  have c2: "convert_weights_bio_to_theo ?bm2 ?B = Inr ?T"
    by code_simp
  note k1 = weights_views_recomputed_on_read [THEN conjunct1, THEN mp, OF s1]
  note k2 = weights_views_recomputed_on_read [THEN conjunct2, THEN mp, OF s2]
  from k1 c1 have r1: "snd (get_weights_bio ?bm1) = Inr ?B"
    by auto
  with k1 have r1': "stored_weights_bio (fst (get_weights_bio ?bm1)) = Some ?B"
    by blast
  from k2 c2 have r2: "snd (get_weights_theo ?bm2) = Inr ?T"
    by auto
  from s1 r1 r1' s2 r2 show ?thesis
    by (intro conjI)
qed

section \<open>Conversion of a weight matrix\<close>

lemma fold_update_length [simp]:
  "length (fold (\<lambda>i d. d[f i := v i]) xs d) = length d"
  by (induction xs arbitrary: d) auto

lemma fold_update_other:
  "p \<notin> f ` set xs \<Longrightarrow> fold (\<lambda>i d. d[f i := v i]) xs d ! p = d ! p"
  by (induction xs arbitrary: d) auto

lemma fold_update_hit:
  "distinct xs \<Longrightarrow> inj_on f (set xs) \<Longrightarrow> i \<in> set xs \<Longrightarrow> f i < length d
     \<Longrightarrow> fold (\<lambda>i d. d[f i := v i]) xs d ! f i = v i"
proof (induction xs arbitrary: d)
  case Nil
  then show ?case by simp
next
  case (Cons x xs)
  show ?case
  proof (cases "i = x")
    case True
    with Cons.prems have "f i \<notin> f ` set xs"
      by (auto simp: inj_on_def)
    then have "fold (\<lambda>i d. d[f i := v i]) xs (d[f x := v x]) ! f i = d[f x := v x] ! f i"
      by (rule fold_update_other)
    with True Cons.prems show ?thesis by simp
  next
    case False
    with Cons.prems have "i \<in> set xs" "distinct xs" "inj_on f (set xs)" "f i < length (d[f x := v x])"
      by (auto simp: inj_on_def)
    from Cons.IH [OF this(2,3,1,4)] show ?thesis by simp
  qed
qed

lemma set_column_at2:
  assumes "shape a = [r, c]" "length (data a) = r * c" "j < c"
  shows "shape (set_column a j col) = [r, c]"
    and "length (data (set_column a j col)) = r * c"
    and "i < r \<Longrightarrow> k < c \<Longrightarrow> at2 (set_column a j col) i k = (if k = j then col ! i else at2 a i k)"
proof -
  show "shape (set_column a j col) = [r, c]" and "length (data (set_column a j col)) = r * c"
    using assms by (simp_all add: set_column_def)
  assume ik: "i < r" "k < c"
  let ?f = "\<lambda>i. i * c + j"
  have inj: "inj_on ?f (set [0..<r])"
    using assms(3) by (auto simp: inj_on_def)
  show "at2 (set_column a j col) i k = (if k = j then col ! i else at2 a i k)"
  proof (cases "k = j")
    case True
    have "?f i < length (data a)"
      using ik assms flat_index_less [of i r j c] by simp
    with inj ik have "fold (\<lambda>i d. d[?f i := col ! i]) [0..<r] (data a) ! ?f i = col ! i"
      by (intro fold_update_hit) simp_all
    with True assms show ?thesis
      by (simp add: set_column_def at2_def)
  next
    case False
    have "i * c + k \<notin> ?f ` set [0..<r]"
    proof
      assume "i * c + k \<in> ?f ` set [0..<r]"
      then obtain i' where "i * c + k = i' * c + j" by auto
      with flat_index_inj [of k c j i i'] ik assms(3) False show False by simp
    qed
    then have "fold (\<lambda>i d. d[?f i := col ! i]) [0..<r] (data a) ! (i * c + k) = data a ! (i * c + k)"
      by (rule fold_update_other)
    with False assms show ?thesis
      by (simp add: set_column_def at2_def)
  qed
qed

lemma column_nth: "shape a = [r, c] \<Longrightarrow> i < r \<Longrightarrow> map g (column a j) ! i = g (at2 a i j)"
  by (simp add: column_def)

lemma column_length: "shape a = [r, c] \<Longrightarrow> length (column a j) = r"
  by (simp add: column_def)

lemma convert_columns_elementwise:
  assumes "\<forall>s \<in> set ss. \<forall>col. conv s col = Inr (map (g s) col)"
    and "shape weights = [r, c]"
    and "shape cw = [r, c]" "length (data cw) = r * c"
    and "j + length ss \<le> c"
  shows "\<exists>out. convert_columns conv weights j ss cw = Inr out
           \<and> shape out = [r, c] \<and> length (data out) = r * c
           \<and> (\<forall>i<r. \<forall>k<c. at2 out i k =
                 (if j \<le> k \<and> k < j + length ss then g (ss ! (k - j)) (at2 weights i k)
                  else at2 cw i k))"
  using assms
proof (induction ss arbitrary: j cw)
  case Nil
  then show ?case by simp
next
  case (Cons s ss)
  let ?col = "map (g s) (column weights j)"
  let ?cw = "set_column cw j ?col"
  from Cons.prems have j: "j < c" by simp
  note sc = set_column_at2 [OF Cons.prems(3,4) j, where col = ?col]
  from Cons.prems have "\<forall>s \<in> set ss. \<forall>col. conv s col = Inr (map (g s) col)" and "Suc j + length ss \<le> c"
    by simp_all
  from Cons.IH [OF this(1) Cons.prems(2) sc(1,2) this(2)] obtain out where
    out: "convert_columns conv weights (Suc j) ss ?cw = Inr out"
      "shape out = [r, c]" "length (data out) = r * c"
      "\<forall>i<r. \<forall>k<c. at2 out i k =
          (if Suc j \<le> k \<and> k < Suc j + length ss then g (ss ! (k - Suc j)) (at2 weights i k)
           else at2 ?cw i k)"
    by blast
  have step: "convert_columns conv weights j (s # ss) cw = Inr out"
    using Cons.prems j out(1) by (simp add: column_length)
  have "at2 out i k =
          (if j \<le> k \<and> k < j + length (s # ss) then g ((s # ss) ! (k - j)) (at2 weights i k)
           else at2 cw i k)" if "i < r" "k < c" for i k
  proof (cases "k = j")
    case True
    with that out(4) sc(3) [where i = i and k = k] Cons.prems(2) show ?thesis
      by (simp add: column_nth)
  next
    case False
    with that out(4) sc(3) [where i = i and k = k] show ?thesis
      by (auto simp: nth_Cons' Suc_diff_le elim: le_neq_trans)
  qed
  with step out(2,3) show ?case by blast
qed

lemma ndarray_eqI:
  assumes "shape a = [r, c]" "shape b = [r, c]"
    and "length (data a) = r * c" "length (data b) = r * c"
    and "\<And>i k. i < r \<Longrightarrow> k < c \<Longrightarrow> at2 a i k = at2 b i k"
  shows "a = (b::ndarray)"
proof -
  have "data a ! p = data b ! p" if "p < r * c" for p
  proof -
    from that have c: "0 < c" by (cases c) simp_all
    then have "p mod c < c" by simp
    moreover have "p div c < r"
      using that c by (simp add: less_mult_imp_div_less)
    ultimately have "at2 a (p div c) (p mod c) = at2 b (p div c) (p mod c)"
      by (intro assms(5))
    with assms(1,2) show ?thesis
      by (simp add: at2_def)
  qed
  with assms(3,4) have "data a = data b"
    by (intro nth_equalityI) simp_all
  with assms(1,2) show ?thesis
    by (intro ndarray.equality) simp_all
qed

lemma zeros_like_shape [simp]: "shape (zeros_like a) = shape a"
  and zeros_like_length [simp]: "length (data (zeros_like a)) = length (data a)"
  by (simp_all add: zeros_like_def)

text \<open>
  C1, as the code has it. For \<open>N\<close> samplers that all have a calibration with \<open>alpha > 0\<close>
  and an \<open>N x N\<close> matrix \<open>W\<close> with zero diagonal, \<open>convert_weights_theo_to_bio\<close> followed by
  \<open>convert_weights_bio_to_theo\<close> returns \<open>W\<close>, and the intermediate matrix and the final
  matrix have zero diagonal.
\<close>

theorem weights_roundtrip_zero_diagonal:
  assumes "length (samplers self) = n"
    and "shape W = [n, n]" "length (data W) = n * n"
    and "\<forall>s \<in> set (samplers self). \<exists>c. calib s = Some c \<and> 0 < alpha c"
    and "\<forall>i<n. at2 W i i = 0"
  shows "\<exists>B T. convert_weights_theo_to_bio self W = Inr B
           \<and> convert_weights_bio_to_theo self B = Inr T
           \<and> T = W
           \<and> (\<forall>i<n. at2 B i i = 0) \<and> (\<forall>i<n. at2 T i i = 0)"
proof -
  let ?ss = "samplers self"
  let ?a = "\<lambda>s. alpha (the (calib s))"
  have fwd: "\<forall>s \<in> set ?ss. \<forall>col. sampler_convert_weights_theo_to_bio s col = Inr (map (\<lambda>w. w * ?a s) col)"
    using assms(4) by (auto simp: sampler_convert_weights_theo_to_bio_def)
  have bwd: "\<forall>s \<in> set ?ss. \<forall>col. sampler_convert_weights_bio_to_theo s col = Inr (map (\<lambda>w. w / ?a s) col)"
    using assms(4) by (auto simp: sampler_convert_weights_bio_to_theo_def)
  have all: "0 + length ?ss \<le> n"
    using assms(1) by simp
  from convert_columns_elementwise [where g = "\<lambda>s w. w * ?a s", OF fwd assms(2) _ _ all, of "zeros_like W"]
  obtain B where B: "convert_weights_theo_to_bio self W = Inr B" "shape B = [n, n]"
      "length (data B) = n * n" "\<forall>i<n. \<forall>k<n. at2 B i k = at2 W i k * ?a (?ss ! k)"
    using assms(1,2,3) by (auto simp: convert_weights_theo_to_bio_def)
  from convert_columns_elementwise [where g = "\<lambda>s w. w / ?a s", OF bwd B(2) _ _ all, of "zeros_like B"]
  obtain T where T: "convert_weights_bio_to_theo self B = Inr T" "shape T = [n, n]"
      "length (data T) = n * n" "\<forall>i<n. \<forall>k<n. at2 T i k = at2 B i k / ?a (?ss ! k)"
    using assms(1) B(2,3) by (auto simp: convert_weights_bio_to_theo_def)
  have pos: "?a (?ss ! k) \<noteq> 0" if "k < n" for k
  proof -
    from that assms(1) have "?ss ! k \<in> set ?ss" by simp
    with assms(4) show ?thesis by fastforce
  qed
  have "at2 T i k = at2 W i k" if "i < n" "k < n" for i k
    using that T(4) B(4) pos [of k] by simp
  with T(2,3) assms(2,3) have "T = W"
    by (intro ndarray_eqI [of T n n W]) simp_all
  moreover from B(4) assms(5) have "\<forall>i<n. at2 B i i = 0"
    by simp
  ultimately show ?thesis
    using B(1) T(1) assms(5) by blast
qed

theorem weights_roundtrip_zero_diagonal_witness:
  "length (samplers \<lparr>num_samplers = 2,
        samplers = [\<lparr>params_id = 0, tau_refrac = 1, calib = Some \<lparr>alpha = 2, v_p05 = 0\<rparr>\<rparr>,
                    \<lparr>params_id = 1, tau_refrac = 1, calib = Some \<lparr>alpha = 4, v_p05 = 0\<rparr>\<rparr>],
        stored_weights_theo = None, stored_weights_bio = None\<rparr>) = 2
   \<and> at2 \<lparr>shape = [2, 2], data = [0, 3, 5, 0]\<rparr> 0 0 = 0
   \<and> at2 \<lparr>shape = [2, 2], data = [0, 3, 5, 0]\<rparr> 1 1 = 0
   \<and> convert_weights_theo_to_bio
        \<lparr>num_samplers = 2,
          samplers = [\<lparr>params_id = 0, tau_refrac = 1, calib = Some \<lparr>alpha = 2, v_p05 = 0\<rparr>\<rparr>,
                      \<lparr>params_id = 1, tau_refrac = 1, calib = Some \<lparr>alpha = 4, v_p05 = 0\<rparr>\<rparr>],
          stored_weights_theo = None, stored_weights_bio = None\<rparr>
        \<lparr>shape = [2, 2], data = [0, 3, 5, 0]\<rparr>
       = Inr \<lparr>shape = [2, 2], data = [0, 12, 10, 0]\<rparr>
   \<and> convert_weights_bio_to_theo
        \<lparr>num_samplers = 2,
          samplers = [\<lparr>params_id = 0, tau_refrac = 1, calib = Some \<lparr>alpha = 2, v_p05 = 0\<rparr>\<rparr>,
                      \<lparr>params_id = 1, tau_refrac = 1, calib = Some \<lparr>alpha = 4, v_p05 = 0\<rparr>\<rparr>],
          stored_weights_theo = None, stored_weights_bio = None\<rparr>
        \<lparr>shape = [2, 2], data = [0, 12, 10, 0]\<rparr>
       = Inr \<lparr>shape = [2, 2], data = [0, 3, 5, 0]\<rparr>"
proof -
  let ?bm = "\<lparr>num_samplers = 2,
        samplers = [\<lparr>params_id = 0, tau_refrac = 1, calib = Some \<lparr>alpha = 2, v_p05 = 0\<rparr>\<rparr>,
                    \<lparr>params_id = 1, tau_refrac = 1, calib = Some \<lparr>alpha = 4, v_p05 = 0\<rparr>\<rparr>],
        stored_weights_theo = None, stored_weights_bio = None\<rparr>"
  let ?W = "\<lparr>shape = [2, 2], data = [0, 3, 5, 0]\<rparr>"
  let ?B = "\<lparr>shape = [2, 2], data = [0, 12, 10, 0]\<rparr>"
  have n: "length (samplers ?bm) = 2"
    by simp
  have sh: "shape ?W = [2, 2]" "length (data ?W) = 2 * 2"
    by simp_all
  have cal: "\<forall>s \<in> set (samplers ?bm). \<exists>c. calib s = Some c \<and> 0 < alpha c"
    by simp
  have d: "at2 ?W 0 0 = 0" "at2 ?W 1 1 = 0"
    by (simp_all add: at2_def)
  then have diag: "\<forall>i<2. at2 ?W i i = 0"
    by (simp add: less_2_cases_iff)
  have fwd: "convert_weights_theo_to_bio ?bm ?W = Inr ?B"
    by code_simp
  from weights_roundtrip_zero_diagonal [OF n sh cal diag] fwd
  have "convert_weights_bio_to_theo ?bm ?B = Inr ?W"
    by auto
  with n d fwd show ?thesis
    by (intro conjI)
qed

text \<open>
  C1, the claim as it is stated, at one sampler with \<open>alpha = 2\<close> and the \<open>1 x 1\<close> matrix
  with the entry 1: the conversions keep the diagonal entry, 2 in the intermediate matrix
  and 1 in the final one; neither forces it to zero.
\<close>

theorem weights_roundtrip_keeps_diagonal:
  "convert_weights_theo_to_bio
      \<lparr>num_samplers = 1,
        samplers = [\<lparr>params_id = 0, tau_refrac = 1, calib = Some \<lparr>alpha = 2, v_p05 = 0\<rparr>\<rparr>],
        stored_weights_theo = None, stored_weights_bio = None\<rparr>
      \<lparr>shape = [1, 1], data = [1]\<rparr>
     = Inr \<lparr>shape = [1, 1], data = [2]\<rparr>
   \<and> convert_weights_bio_to_theo
      \<lparr>num_samplers = 1,
        samplers = [\<lparr>params_id = 0, tau_refrac = 1, calib = Some \<lparr>alpha = 2, v_p05 = 0\<rparr>\<rparr>],
        stored_weights_theo = None, stored_weights_bio = None\<rparr>
      \<lparr>shape = [1, 1], data = [2]\<rparr>
     = Inr \<lparr>shape = [1, 1], data = [1]\<rparr>
   \<and> at2 \<lparr>shape = [1, 1], data = [2]\<rparr> 0 0 = 2
   \<and> at2 \<lparr>shape = [1, 1], data = [1]\<rparr> 0 0 = 1"
  by code_simp

end
